theory Spec2Isabelle
  imports Main
begin

section \<open>Python values used by the services\<close>

text \<open>
  Strings are byte lists (the UTF-8 encoding that \<^verbatim>\<open>str.encode()\<close> produces), so
  \<^verbatim>\<open>hash_input.encode()\<close> is the identity here. An \<^verbatim>\<open>Optional[str]\<close> is a
  \<open>string option\<close>. Python's truth test on such a value is false for \<^verbatim>\<open>None\<close> and for
  the empty string.
\<close>

definition truthy :: "string option \<Rightarrow> bool" where
  "truthy s = (case s of None \<Rightarrow> False | Some v \<Rightarrow> v \<noteq> [])"

text \<open>\<^verbatim>\<open>x or ''\<close> for an optional string.\<close>

definition or_empty :: "string option \<Rightarrow> string" where
  "or_empty s = (case s of None \<Rightarrow> [] | Some v \<Rightarrow> v)"

text \<open>
  Clock readings (\<^verbatim>\<open>datetime.utcnow()\<close>) are microseconds on the integer line;
  \<^verbatim>\<open>timedelta(hours=h)\<close> is \<open>h\<close> times the microseconds of one hour.
\<close>

type_synonym timestamp = int

definition timedelta_hours :: "int \<Rightarrow> int" where
  "timedelta_hours h = h * 3600000000"

section \<open>services/dedup.py\<close>

text \<open>
  The date of a transaction is a \<^verbatim>\<open>datetime\<close> of type \<open>'d\<close> and its amount a
  \<^verbatim>\<open>float\<close> of type \<open>'a\<close>. The code only renders them, so the renderings are
  parameters: \<open>isoformat\<close> is \<^verbatim>\<open>datetime.isoformat\<close>, \<open>fmt\<close> is the formatting of a float
  inside an f-string, and \<open>sha\<close> is \<^verbatim>\<open>hashlib.sha256(b).hexdigest()\<close>.
\<close>

definition hash_input ::
  "('d \<Rightarrow> string) \<Rightarrow> ('a \<Rightarrow> string) \<Rightarrow> 'd \<Rightarrow> 'a \<Rightarrow> string option \<Rightarrow> string option \<Rightarrow> string" where
  "hash_input isoformat fmt date amount payee memo =
     isoformat date @ '':'' @ fmt amount @ '':'' @ or_empty payee @ '':'' @ or_empty memo"

definition generate_hash ::
  "(string \<Rightarrow> string) \<Rightarrow> ('d \<Rightarrow> string) \<Rightarrow> ('a \<Rightarrow> string) \<Rightarrow>
   'd \<Rightarrow> 'a \<Rightarrow> string option \<Rightarrow> string option \<Rightarrow> string" where
  "generate_hash sha isoformat fmt date amount payee memo =
     take 32 (sha (hash_input isoformat fmt date amount payee memo))"

text \<open>\<^verbatim>\<open>TransactionBase\<close> and \<^verbatim>\<open>TransactionCreate\<close> of schemas/transaction.py.\<close>

record ('d, 'a) transaction_base =
  date :: 'd
  amount :: 'a
  payee :: "string option"
  memo :: "string option"

record ('d, 'a) transaction_create = "('d, 'a) transaction_base" +
  source :: string
  source_account :: "string option"
  source_transaction_id :: "string option"

text \<open>
  A row of the table \<^verbatim>\<open>imported_transactions\<close> (models/database.py), with the columns
  that \<^verbatim>\<open>record_imports_batch\<close> fills in. The column \<^verbatim>\<open>transaction_hash\<close> is
  declared \<^verbatim>\<open>unique=True\<close>. The budget and account columns are nullable, and the
  callers pass the fields of a link row, which are nullable too.
\<close>

record ('d, 'a) imported_transaction =
  transaction_hash :: string
  it_date :: 'd
  it_amount :: 'a
  it_payee :: "string option"
  it_memo :: "string option"
  it_source :: string
  it_source_account :: "string option"
  it_source_transaction_id :: "string option"
  it_ynab_budget_id :: "string option"
  it_ynab_account_id :: "string option"
  it_ynab_transaction_id :: "string option"
  imported_at :: timestamp

datatype db_error = IntegrityError

text \<open>\<^verbatim>\<open>get_existing_hashes\<close>: the set of the stored hashes.\<close>

definition get_existing_hashes :: "('d, 'a) imported_transaction list \<Rightarrow> string set" where
  "get_existing_hashes store = set (map transaction_hash store)"

text \<open>
  \<^verbatim>\<open>ynab_ids = ynab_transaction_ids or [None] * len(transactions)\<close>: the list of nulls
  replaces an absent or an empty list only.
\<close>

definition ynab_ids_of :: "string option list option \<Rightarrow> nat \<Rightarrow> string option list" where
  "ynab_ids_of ynab_transaction_ids n =
     (case ynab_transaction_ids of
        None \<Rightarrow> replicate n None
      | Some [] \<Rightarrow> replicate n None
      | Some ids \<Rightarrow> ids)"

text \<open>
  The body of the loop \<^verbatim>\<open>for tx, ynab_id in zip(transactions, ynab_ids)\<close>: the row
  added to the session for one pair; \<open>now\<close> is the reading of the clock for that row.
\<close>

definition import_row ::
  "(string \<Rightarrow> string) \<Rightarrow> ('d \<Rightarrow> string) \<Rightarrow> ('a \<Rightarrow> string) \<Rightarrow>
   string option \<Rightarrow> string option \<Rightarrow> timestamp \<Rightarrow> ('d, 'a) transaction_create \<Rightarrow>
   string option \<Rightarrow> ('d, 'a) imported_transaction" where
  "import_row sha isoformat fmt ynab_budget_id ynab_account_id now tx ynab_id =
     \<lparr> transaction_hash = generate_hash sha isoformat fmt (date tx) (amount tx) (payee tx) (memo tx),
       it_date = date tx,
       it_amount = amount tx,
       it_payee = payee tx,
       it_memo = memo tx,
       it_source = source tx,
       it_source_account = source_account tx,
       it_source_transaction_id = source_transaction_id tx,
       it_ynab_budget_id = ynab_budget_id,
       it_ynab_account_id = ynab_account_id,
       it_ynab_transaction_id = ynab_id,
       imported_at = now \<rparr>"

fun pending_rows ::
  "(string \<Rightarrow> string) \<Rightarrow> ('d \<Rightarrow> string) \<Rightarrow> ('a \<Rightarrow> string) \<Rightarrow>
   string option \<Rightarrow> string option \<Rightarrow> (nat \<Rightarrow> timestamp) \<Rightarrow> nat \<Rightarrow>
   (('d, 'a) transaction_create \<times> string option) list \<Rightarrow>
   ('d, 'a) imported_transaction list" where
  "pending_rows sha isoformat fmt b a utcnow k [] = []"
| "pending_rows sha isoformat fmt b a utcnow k ((tx, ynab_id) # rest) =
     import_row sha isoformat fmt b a (utcnow k) tx ynab_id
       # pending_rows sha isoformat fmt b a utcnow (Suc k) rest"

text \<open>
  \<^verbatim>\<open>session.commit()\<close> of the rows added to the session: one transaction of the
  database. The unique index on \<^verbatim>\<open>transaction_hash\<close> rejects the flush when a hash
  of a new row is already stored or occurs twice among the new rows; the transaction is
  then rolled back and the table is as before.
\<close>

definition commit_rows ::
  "('d, 'a) imported_transaction list \<Rightarrow> ('d, 'a) imported_transaction list \<Rightarrow>
   ('d, 'a) imported_transaction list \<times> db_error option" where
  "commit_rows store rows =
     (if distinct (map transaction_hash rows) \<and>
         set (map transaction_hash rows) \<inter> get_existing_hashes store = {}
      then (store @ rows, None)
      else (store, Some IntegrityError))"

text \<open>
  \<^verbatim>\<open>record_imports_batch\<close>: the table after the call, and either the error raised by
  the commit or the returned count \<^verbatim>\<open>len(transactions)\<close>. \<open>utcnow k\<close> is the
  \<open>k\<close>-th reading of the clock that the statements of the caller make; the rows take
  the readings from \<open>k0\<close> on.
\<close>

definition record_imports_batch ::
  "(string \<Rightarrow> string) \<Rightarrow> ('d \<Rightarrow> string) \<Rightarrow> ('a \<Rightarrow> string) \<Rightarrow> (nat \<Rightarrow> timestamp) \<Rightarrow>
   nat \<Rightarrow> ('d, 'a) imported_transaction list \<Rightarrow> ('d, 'a) transaction_create list \<Rightarrow>
   string option \<Rightarrow> string option \<Rightarrow> string option list option \<Rightarrow> ('d, 'a) imported_transaction list \<times> (db_error + nat)" where
  "record_imports_batch sha isoformat fmt utcnow k0 store transactions ynab_budget_id
     ynab_account_id ynab_transaction_ids =
     (if transactions = [] then (store, Inr 0)
      else
        let ynab_ids = ynab_ids_of ynab_transaction_ids (length transactions);
            rows = pending_rows sha isoformat fmt ynab_budget_id ynab_account_id utcnow k0
                     (zip transactions ynab_ids)
        in case commit_rows store rows of
             (store', Some e) \<Rightarrow> (store', Inl e)
           | (store', None) \<Rightarrow> (store', Inr (length transactions)))"

section \<open>services/ynab\_client.py\<close>

text \<open>The decimal text of a Python \<^verbatim>\<open>int\<close>, as an f-string renders it.\<close>

definition digit_char :: "nat \<Rightarrow> char" where
  "digit_char n = char_of (of_char (CHR ''0'') + n)"

fun str_nat :: "nat \<Rightarrow> string" where
  "str_nat n = (if n < 10 then [digit_char n] else str_nat (n div 10) @ [digit_char (n mod 10)])"

declare str_nat.simps [simp del]

definition str_int :: "int \<Rightarrow> string" where
  "str_int i = (if i < 0 then CHR ''-'' # str_nat (nat (- i)) else str_nat (nat i))"

text \<open>
  \<^verbatim>\<open>generate_import_id\<close>; \<open>date_iso\<close> is the text \<^verbatim>\<open>date.isoformat()\<close> of the date.
\<close>

definition generate_import_id :: "string \<Rightarrow> int \<Rightarrow> int \<Rightarrow> string" where
  "generate_import_id date_iso amount_milliunits occurrence =
     ''YNAB:'' @ str_int amount_milliunits @ '':'' @ date_iso @ '':'' @ str_int occurrence"

text \<open>A transaction in the format of the YNAB API, as \<^verbatim>\<open>create_transactions\<close> builds it.\<close>

record ynab_transaction =
  yt_account_id :: string
  yt_date :: string
  yt_amount :: int
  payee_name :: "string option"
  yt_memo :: "string option"
  cleared :: string
  import_id :: string

text \<open>
  The loop of \<^verbatim>\<open>create_transactions\<close>. \<open>to_date_iso\<close> renders the calendar date of a
  transaction's date (\<^verbatim>\<open>tx_date.date().isoformat()\<close>) and \<open>dollars_to_milliunits\<close> is
  \<^verbatim>\<open>int(round(amount * 1000))\<close> on floats; both are parameters. The dictionary
  \<^verbatim>\<open>import_id_counts\<close> is a map from the base key to the last occurrence number.
\<close>

definition base_key :: "('d \<Rightarrow> string) \<Rightarrow> ('a \<Rightarrow> int) \<Rightarrow> ('d, 'a) transaction_base \<Rightarrow> string" where
  "base_key to_date_iso dollars_to_milliunits tx =
     str_int (dollars_to_milliunits (amount tx)) @ '':'' @ to_date_iso (date tx)"

fun ynab_transactions_loop ::
  "('d \<Rightarrow> string) \<Rightarrow> ('a \<Rightarrow> int) \<Rightarrow> string \<Rightarrow> (string \<rightharpoonup> int) \<Rightarrow>
   ('d, 'a) transaction_base list \<Rightarrow> ynab_transaction list" where
  "ynab_transactions_loop to_date_iso dollars_to_milliunits account_id import_id_counts [] = []"
| "ynab_transactions_loop to_date_iso dollars_to_milliunits account_id import_id_counts (tx # rest) =
     (let amount_milliunits = dollars_to_milliunits (amount tx);
          key = base_key to_date_iso dollars_to_milliunits tx;
          occurrence = (case import_id_counts key of None \<Rightarrow> 0 | Some c \<Rightarrow> c) + 1;
          import_id_counts' = import_id_counts(key \<mapsto> occurrence)
      in \<lparr> yt_account_id = account_id,
           yt_date = to_date_iso (date tx),
           yt_amount = amount_milliunits,
           payee_name = payee tx,
           yt_memo = memo tx,
           cleared = ''cleared'',
           import_id = generate_import_id (to_date_iso (date tx)) amount_milliunits occurrence \<rparr>
         # ynab_transactions_loop to_date_iso dollars_to_milliunits account_id import_id_counts' rest)"

text \<open>
  The list \<^verbatim>\<open>ynab_transactions\<close> that \<^verbatim>\<open>create_transactions\<close> sends: the loop
  started with the empty dictionary.
\<close>

definition create_transactions_body ::
  "('d \<Rightarrow> string) \<Rightarrow> ('a \<Rightarrow> int) \<Rightarrow> string \<Rightarrow> ('d, 'a) transaction_base list \<Rightarrow>
   ynab_transaction list" where
  "create_transactions_body to_date_iso dollars_to_milliunits account_id transactions =
     ynab_transactions_loop to_date_iso dollars_to_milliunits account_id Map.empty transactions"

section \<open>models/database.py and schemas/akahu.py\<close>

record ('d, 'a) akahu_transaction =
  ak_id :: string
  ak_account_id :: string
  ak_date :: 'd
  ak_amount :: 'a
  description :: string
  merchant :: "string option"
  category :: "string option"

record akahu_account =
  akahu_account_id :: string
  account_name :: "string option"
  ynab_budget_id :: "string option"
  ynab_account_id :: "string option"
  auto_sync :: bool
  last_synced_at :: "timestamp option"
  schedule_enabled :: bool
  schedule_interval_hours :: int
  schedule_days_to_sync :: int
  next_sync_at :: "timestamp option"
  last_sync_status :: "string option"
  last_sync_message :: "string option"
  last_sync_imported :: int
  updated_at :: timestamp

record sync_log =
  sl_akahu_account_id :: string
  started_at :: timestamp
  completed_at :: "timestamp option"
  status :: string
  transactions_found :: nat
  transactions_imported :: nat
  transactions_skipped :: nat
  ynab_duplicates :: nat
  error_message :: "string option"
  trigger :: string

text \<open>
  The persistent state: the three tables and the jobs of the scheduler. The table of
  linked accounts has a unique \<^verbatim>\<open>akahu_account_id\<close>, so it is a map from that id; the
  job store maps a job id to the hours of its interval trigger.
\<close>

record ('d, 'a) app_state =
  imported_transactions :: "('d, 'a) imported_transaction list"
  akahu_accounts :: "string \<rightharpoonup> akahu_account"
  sync_logs :: "sync_log list"
  scheduler_jobs :: "string \<rightharpoonup> int"

text \<open>
  What a run receives from outside: the renderings and the digest, the answer of
  \<^verbatim>\<open>akahu.get_account_transactions\<close> (the text of the exception, or the
  transactions), the answer of \<^verbatim>\<open>ynab.import_transactions\<close> to a batch (the text of
  the exception, or the created ids and the duplicate import ids), and the clock.
\<close>

record ('d, 'a) env =
  sha256_hexdigest :: "string \<Rightarrow> string"
  datetime_isoformat :: "'d \<Rightarrow> string"
  format_float :: "'a \<Rightarrow> string"
  get_account_transactions :: "string + ('d, 'a) akahu_transaction list"
  import_transactions :: "('d, 'a) transaction_base list \<Rightarrow> string + (string list \<times> string list)"
  utcnow :: "nat \<Rightarrow> timestamp"

section \<open>The filter loop shared by routers/akahu.py and services/scheduler.py\<close>

text \<open>\<^verbatim>\<open>tx.merchant or alt\<close>.\<close>

definition merchant_or :: "('d, 'a) akahu_transaction \<Rightarrow> string \<Rightarrow> string" where
  "merchant_or tx alt = (if truthy (merchant tx) then or_empty (merchant tx) else alt)"

text \<open>
  The fingerprint the loop tests against the existing hashes:
  \<^verbatim>\<open>generate_hash(tx.date, tx.amount, tx.merchant or tx.description)\<close>, with the memo
  left at its default \<^verbatim>\<open>None\<close>.
\<close>

definition filter_hash :: "('d, 'a) env \<Rightarrow> ('d, 'a) akahu_transaction \<Rightarrow> string" where
  "filter_hash e tx =
     generate_hash (sha256_hexdigest e) (datetime_isoformat e) (format_float e)
       (ak_date tx) (ak_amount tx) (Some (merchant_or tx (description tx))) None"

text \<open>
  \<^verbatim>\<open>tx.merchant or tx.description[:50] if tx.description else None\<close>: the conditional
  expression binds weaker than \<^verbatim>\<open>or\<close>, so an empty description gives \<^verbatim>\<open>None\<close>.
\<close>

definition payee_of :: "('d, 'a) akahu_transaction \<Rightarrow> string option" where
  "payee_of tx =
     (if description tx \<noteq> [] then Some (merchant_or tx (take 50 (description tx))) else None)"

definition to_ynab_dict :: "('d, 'a) akahu_transaction \<Rightarrow> ('d, 'a) transaction_base" where
  "to_ynab_dict tx =
     \<lparr> date = ak_date tx, amount = ak_amount tx, payee = payee_of tx,
       memo = Some (description tx) \<rparr>"

definition to_transaction_create ::
  "string \<Rightarrow> ('d, 'a) akahu_transaction \<Rightarrow> ('d, 'a) transaction_create" where
  "to_transaction_create acct_id tx =
     \<lparr> date = ak_date tx, amount = ak_amount tx, payee = payee_of tx,
       memo = Some (description tx), source = ''akahu'',
       source_account = Some acct_id,
       source_transaction_id = Some (ak_id tx) \<rparr>"

text \<open>
  The loop \<^verbatim>\<open>for tx in transactions\<close>: the lists \<^verbatim>\<open>ynab_transactions\<close> and
  \<^verbatim>\<open>tx_creates\<close> in the order of the input, and the counter \<^verbatim>\<open>skipped\<close>. The
  scheduled job has no \<^verbatim>\<open>skip_duplicates\<close> flag and always skips.
\<close>

fun filter_loop ::
  "('d, 'a) env \<Rightarrow> bool \<Rightarrow> string set \<Rightarrow> string \<Rightarrow> ('d, 'a) akahu_transaction list \<Rightarrow>
   ('d, 'a) transaction_base list \<times> ('d, 'a) transaction_create list \<times> nat" where
  "filter_loop e skip_duplicates existing_hashes acct_id [] = ([], [], 0)"
| "filter_loop e skip_duplicates existing_hashes acct_id (tx # rest) =
     (case filter_loop e skip_duplicates existing_hashes acct_id rest of
        (ynab_transactions, tx_creates, skipped) \<Rightarrow>
          if skip_duplicates \<and> filter_hash e tx \<in> existing_hashes
          then (ynab_transactions, tx_creates, Suc skipped)
          else (to_ynab_dict tx # ynab_transactions,
                to_transaction_create acct_id tx # tx_creates, skipped))"

section \<open>routers/akahu.py\<close>

datatype sync_error = HTTPException nat string | Unhandled db_error

record sync_response =
  imported :: nat
  r_ynab_duplicates :: "nat option"
  skipped_duplicates :: nat
  message :: "string option"
  transaction_ids :: "string list option"

text \<open>
  \<^verbatim>\<open>sync_akahu_account\<close>, the manual sync: the state after the request and its
  answer. An \<^verbatim>\<open>IntegrityError\<close> of the commit is not caught by the handler and
  leaves the state as it was.
\<close>

definition sync_akahu_account ::
  "('d, 'a) env \<Rightarrow> ('d, 'a) app_state \<Rightarrow> string \<Rightarrow> bool \<Rightarrow>
   ('d, 'a) app_state \<times> (sync_error + sync_response)" where
  "sync_akahu_account e db acct_id skip_duplicates =
     (case akahu_accounts db acct_id of
        None \<Rightarrow> (db, Inl (HTTPException 400 ''Akahu account is not linked to a YNAB account''))
      | Some link \<Rightarrow>
          if \<not> truthy (ynab_account_id link)
          then (db, Inl (HTTPException 400 ''Akahu account is not linked to a YNAB account''))
          else
            case get_account_transactions e of
              Inl err \<Rightarrow>
                (db, Inl (HTTPException 500 (''Failed to fetch Akahu transactions: '' @ err)))
            | Inr transactions \<Rightarrow>
                if transactions = []
                then (db, Inr \<lparr> imported = 0, r_ynab_duplicates = None, skipped_duplicates = 0,
                                 message = Some ''No transactions found'',
                                 transaction_ids = None \<rparr>)
                else
                  case filter_loop e skip_duplicates
                         (get_existing_hashes (imported_transactions db)) acct_id
                         transactions of
                    (ynab_transactions, tx_creates, skipped) \<Rightarrow>
                      if ynab_transactions = []
                      then (db, Inr \<lparr> imported = 0, r_ynab_duplicates = None,
                                       skipped_duplicates = skipped,
                                       message = Some ''All transactions were duplicates'',
                                       transaction_ids = None \<rparr>)
                      else
                        case import_transactions e ynab_transactions of
                          Inl err \<Rightarrow>
                            (db, Inl (HTTPException 500 (''Failed to import to YNAB: '' @ err)))
                        | Inr (created_ids, duplicate_ids) \<Rightarrow>
                            (case record_imports_batch (sha256_hexdigest e) (datetime_isoformat e)
                                   (format_float e) (utcnow e) 0 (imported_transactions db)
                                   tx_creates (ynab_budget_id link) (ynab_account_id link)
                                   (Some (map Some created_ids)) of
                              (store, Inl err) \<Rightarrow> (db, Inl (Unhandled err))
                            | (store, Inr n) \<Rightarrow>
                                (db \<lparr> imported_transactions := store,
                                      akahu_accounts := (akahu_accounts db)
                                        (acct_id \<mapsto>
                                           link \<lparr> last_synced_at :=
                                             Some (utcnow e (length store
                                                    - length (imported_transactions db))) \<rparr>) \<rparr>,
                                 Inr \<lparr> imported = length created_ids,
                                       r_ynab_duplicates = Some (length duplicate_ids),
                                       skipped_duplicates = skipped,
                                       message = None,
                                       transaction_ids = Some created_ids \<rparr>)))"


text \<open>
  \<^verbatim>\<open>min(valid_intervals, key=lambda x: abs(x - h))\<close>: Python's \<^verbatim>\<open>min\<close> keeps the
  first element whose key is smallest.
\<close>

fun min_by_key :: "('b \<Rightarrow> int) \<Rightarrow> 'b \<Rightarrow> 'b list \<Rightarrow> 'b" where
  "min_by_key key best [] = best"
| "min_by_key key best (x # xs) = min_by_key key (if key x < key best then x else best) xs"

definition valid_intervals :: "int list" where
  "valid_intervals = [1, 2, 4, 6, 12, 24]"

definition validate_interval :: "int \<Rightarrow> int" where
  "validate_interval interval_hours =
     (if interval_hours \<in> set valid_intervals then interval_hours
      else min_by_key (\<lambda>x. \<bar>x - interval_hours\<bar>) (hd valid_intervals) (tl valid_intervals))"

record schedule_config =
  enabled :: bool
  interval_hours :: int
  days_to_sync :: int

definition job_id_of :: "string \<Rightarrow> string" where
  "job_id_of acct_id = ''sync_'' @ acct_id"

text \<open>
  \<^verbatim>\<open>schedule_account_sync\<close> and \<^verbatim>\<open>remove_account_schedule\<close> of
  services/scheduler.py, on the job store.
\<close>

definition schedule_account_sync :: "(string \<rightharpoonup> int) \<Rightarrow> akahu_account \<Rightarrow> (string \<rightharpoonup> int)" where
  "schedule_account_sync jobs account =
     (let job_id = job_id_of (akahu_account_id account);
          jobs' = jobs(job_id := None)
      in if \<not> schedule_enabled account then jobs'
         else jobs'(job_id \<mapsto> schedule_interval_hours account))"

definition remove_account_schedule :: "(string \<rightharpoonup> int) \<Rightarrow> string \<Rightarrow> (string \<rightharpoonup> int)" where
  "remove_account_schedule jobs acct_id = jobs(job_id_of acct_id := None)"

text \<open>
  \<^verbatim>\<open>set_account_schedule\<close>: \<open>now1\<close> and \<open>now2\<close> are its two readings of the clock. The
  answer is the error, or the text of \<^verbatim>\<open>next_sync_at\<close> left to the caller as the
  stored value.
\<close>

definition set_account_schedule ::
  "timestamp \<Rightarrow> timestamp \<Rightarrow> ('d, 'a) app_state \<Rightarrow> string \<Rightarrow> schedule_config \<Rightarrow>
   ('d, 'a) app_state \<times> (sync_error + timestamp option)" where
  "set_account_schedule now1 now2 db acct_id config =
     (case akahu_accounts db acct_id of
        None \<Rightarrow> (db, Inl (HTTPException 404 ''Account not found''))
      | Some account \<Rightarrow>
          if \<not> truthy (ynab_account_id account)
          then (db, Inl (HTTPException 400
                  ''Account must be linked to YNAB before enabling scheduled sync''))
          else
            let hours = validate_interval (interval_hours config);
                account' = account \<lparr> schedule_enabled := enabled config,
                                      schedule_interval_hours := hours,
                                      schedule_days_to_sync := days_to_sync config,
                                      next_sync_at :=
                                        (if enabled config then Some (now1 + timedelta_hours hours)
                                         else None),
                                      updated_at := now2 \<rparr>;
                jobs' = (if enabled config
                         then schedule_account_sync (scheduler_jobs db) account'
                         else remove_account_schedule (scheduler_jobs db) acct_id)
            in (db \<lparr> akahu_accounts := (akahu_accounts db)(acct_id \<mapsto> account'),
                     scheduler_jobs := jobs' \<rparr>,
                Inr (next_sync_at account')))"

section \<open>services/scheduler.py\<close>

text \<open>The \<^verbatim>\<open>job_defaults\<close> that \<^verbatim>\<open>get_scheduler\<close> gives the scheduler.\<close>

record job_defaults =
  coalesce :: bool
  max_instances :: nat
  misfire_grace_time :: nat

definition get_scheduler_job_defaults :: job_defaults where
  "get_scheduler_job_defaults =
     \<lparr> coalesce = True, max_instances = 1, misfire_grace_time = 60 * 30 \<rparr>"

text \<open>
  The end of every branch of the job: the row of the log and the row of the link as the
  last commit leaves them.
\<close>

definition finish_job ::
  "('d, 'a) app_state \<Rightarrow> string \<Rightarrow> sync_log \<Rightarrow> akahu_account \<Rightarrow> ('d, 'a) app_state" where
  "finish_job db acct_id log link =
     db \<lparr> akahu_accounts := (akahu_accounts db)(acct_id \<mapsto> link),
          sync_logs := sync_logs db @ [log] \<rparr>"

text \<open>
  \<^verbatim>\<open>sync_akahu_account_job\<close>, the scheduled sync: the state the job leaves.
  \<open>utcnow e 0\<close> is the start of the log row, and the later readings follow in the order
  of the statements. When the commit of \<^verbatim>\<open>record_imports_batch\<close> raises, the
  handler at the end of the job marks the link as failed; the log row stays as it was
  committed at the start.
\<close>

definition sync_akahu_account_job ::
  "('d, 'a) env \<Rightarrow> ('d, 'a) app_state \<Rightarrow> string \<Rightarrow> ('d, 'a) app_state" where
  "sync_akahu_account_job e db acct_id =
     (case akahu_accounts db acct_id of
        None \<Rightarrow> db
      | Some link0 \<Rightarrow>
          if \<not> truthy (ynab_account_id link0) then db
          else
            let log0 = \<lparr> sl_akahu_account_id = acct_id, started_at = utcnow e 0,
                         completed_at = None, status = ''running'', transactions_found = 0,
                         transactions_imported = 0, transactions_skipped = 0,
                         ynab_duplicates = 0, error_message = None,
                         trigger = ''scheduled'' \<rparr>;
                link = link0 \<lparr> last_sync_status := Some ''running'' \<rparr>
            in
            case get_account_transactions e of
              Inl err \<Rightarrow>
                finish_job db acct_id
                  (log0 \<lparr> status := ''failed'', error_message := Some err,
                          completed_at := Some (utcnow e 1) \<rparr>)
                  (link \<lparr> last_sync_status := Some ''failed'',
                          last_sync_message := Some err \<rparr>)
            | Inr transactions \<Rightarrow>
                let log1 = log0 \<lparr> transactions_found := length transactions \<rparr> in
                if transactions = []
                then finish_job db acct_id
                       (log1 \<lparr> status := ''success'', completed_at := Some (utcnow e 1) \<rparr>)
                       (link \<lparr> last_sync_status := Some ''success'',
                               last_sync_message := Some ''No transactions found'',
                               last_sync_imported := 0,
                               last_synced_at := Some (utcnow e 2),
                               next_sync_at := Some (utcnow e 3
                                 + timedelta_hours (schedule_interval_hours link)) \<rparr>)
                else
                  case filter_loop e True (get_existing_hashes (imported_transactions db))
                         acct_id transactions of
                    (ynab_transactions, tx_creates, skipped) \<Rightarrow>
                      let log2 = log1 \<lparr> transactions_skipped := skipped \<rparr> in
                      if ynab_transactions = []
                      then finish_job db acct_id
                             (log2 \<lparr> status := ''success'',
                                     completed_at := Some (utcnow e 1),
                                     transactions_imported := 0 \<rparr>)
                             (link \<lparr> last_sync_status := Some ''success'',
                                     last_sync_message := Some (''All '' @ str_int (int skipped)
                                       @ '' transactions were duplicates''),
                                     last_sync_imported := 0,
                                     last_synced_at := Some (utcnow e 2),
                                     next_sync_at := Some (utcnow e 3
                                       + timedelta_hours (schedule_interval_hours link)) \<rparr>)
                      else
                        case import_transactions e ynab_transactions of
                          Inl err \<Rightarrow>
                            finish_job db acct_id
                              (log2 \<lparr> status := ''failed'', error_message := Some err,
                                      completed_at := Some (utcnow e 1) \<rparr>)
                              (link \<lparr> last_sync_status := Some ''failed'',
                                      last_sync_message :=
                                        Some (''YNAB import failed: '' @ err) \<rparr>)
                        | Inr (created_ids, duplicate_ids) \<Rightarrow>
                            (case record_imports_batch (sha256_hexdigest e) (datetime_isoformat e)
                                   (format_float e) (utcnow e) 1 (imported_transactions db)
                                   tx_creates (ynab_budget_id link) (ynab_account_id link)
                                   (Some (map Some created_ids)) of
                              (store, Inl err) \<Rightarrow>
                                finish_job db acct_id log0
                                  (link \<lparr> last_sync_status := Some ''failed'',
                                          last_sync_message := Some ''IntegrityError'' \<rparr>)
                            | (store, Inr n) \<Rightarrow>
                                (let k = 1 + (length store - length (imported_transactions db))
                                 in finish_job (db \<lparr> imported_transactions := store \<rparr>) acct_id
                                      (log2 \<lparr> status := ''success'',
                                              completed_at := Some (utcnow e k),
                                              transactions_imported := length created_ids,
                                              ynab_duplicates := length duplicate_ids \<rparr>)
                                      (link \<lparr> last_sync_status := Some ''success'',
                                              last_sync_message := Some (''Imported ''
                                                @ str_int (int (length created_ids))
                                                @ '' transactions''),
                                              last_sync_imported := int (length created_ids),
                                              last_synced_at := Some (utcnow e (k + 1)),
                                              next_sync_at := Some (utcnow e (k + 2)
                                                + timedelta_hours
                                                    (schedule_interval_hours link)) \<rparr>))))"

section \<open>Concrete values used to evaluate the definitions\<close>

text \<open>
  For evaluation at concrete inputs a date and an amount are given by the text Python
  renders them as (\<open>''2024-01-15T00:00:00+00:00''\<close>, \<open>''-12.5''\<close>). The digest is then a
  sample function with the shape of a SHA-256 \<^verbatim>\<open>hexdigest\<close>: 64 lower-case
  hexadecimal characters, here the hexadecimal text of the bytes of the input read from
  its end, cut or filled with zeros to 64 characters. Every general theorem below is
  stated for an arbitrary digest; the sample only serves the evaluations.
\<close>

definition text_value :: "string \<Rightarrow> string" where
  "text_value s = s"

definition is_hex_char :: "char \<Rightarrow> bool" where
  "is_hex_char c = (c \<in> set ''0123456789abcdef'')"

definition hex_digit :: "nat \<Rightarrow> char" where
  "hex_digit n = ''0123456789abcdef'' ! (n mod 16)"

definition hex_byte :: "char \<Rightarrow> string" where
  "hex_byte c = [hex_digit (of_char c div 16), hex_digit (of_char c)]"

definition sample_digest :: "string \<Rightarrow> string" where
  "sample_digest s = take 64 (concat (map hex_byte (rev s)) @ replicate 64 (CHR ''0''))"



section \<open>Properties of the fingerprint\<close>

lemma or_empty_None_Some_empty: "or_empty None = or_empty (Some [])"
  by (simp add: or_empty_def)

lemma is_hex_hex_digit: "is_hex_char (hex_digit n)"
proof -
  have "n mod 16 < length ''0123456789abcdef''" by simp
  then have "''0123456789abcdef'' ! (n mod 16) \<in> set ''0123456789abcdef''"
    by (rule nth_mem)
  then show ?thesis by (simp only: is_hex_char_def hex_digit_def)
qed

lemma sample_digest_shape: "length (sample_digest s) = 64 \<and> list_all is_hex_char (sample_digest s)"
proof -
  have z: "is_hex_char (CHR ''0'')" by (simp add: is_hex_char_def)
  have "list_all is_hex_char (concat (map hex_byte (rev s)))"
    by (induction s) (simp_all add: hex_byte_def is_hex_hex_digit list_all_iff)
  then have "list_all is_hex_char (concat (map hex_byte (rev s)) @ replicate 64 (CHR ''0''))"
    using z by (simp add: list_all_iff)
  then have "list_all is_hex_char (sample_digest s)"
    unfolding sample_digest_def list_all_iff by (meson in_set_takeD)
  moreover have "length (sample_digest s) = 64"
    by (auto simp: sample_digest_def)
  ultimately show ?thesis by simp
qed

text \<open>
  Claim C5. \<^verbatim>\<open>generate_hash\<close> is a function of its four arguments alone, defined on
  all of them. Whenever the digest is the 64 hexadecimal characters of a SHA-256
  \<^verbatim>\<open>hexdigest\<close>, the fingerprint is the first 32 characters of the digest of the text
  \<^verbatim>\<open>date:amount:payee:memo\<close>, where an absent payee or memo stands as the empty
  text; it has exactly 32 characters, all of them hexadecimal, and an absent payee and
  memo give the same fingerprint as empty ones.
\<close>

theorem generate_hash_hex_digest_and_normalisation:
  assumes "\<forall>s. length (sha s) = 64 \<and> list_all is_hex_char (sha s)"
  shows "generate_hash sha isoformat fmt t a p m
           = take 32 (sha (isoformat t @ '':'' @ fmt a @ '':''
                @ (case p of None \<Rightarrow> [] | Some v \<Rightarrow> v) @ '':''
                @ (case m of None \<Rightarrow> [] | Some v \<Rightarrow> v)))
       \<and> length (generate_hash sha isoformat fmt t a p m) = 32
       \<and> list_all is_hex_char (generate_hash sha isoformat fmt t a p m)
       \<and> generate_hash sha isoformat fmt t a None None
           = generate_hash sha isoformat fmt t a (Some []) (Some [])
       \<and> generate_hash sha isoformat fmt t a None m = generate_hash sha isoformat fmt t a (Some []) m
       \<and> generate_hash sha isoformat fmt t a p None = generate_hash sha isoformat fmt t a p (Some [])"
proof -
  let ?x = "hash_input isoformat fmt t a p m"
  have len: "length (sha ?x) = 64" and hex: "list_all is_hex_char (sha ?x)"
    using assms by simp_all
  have "list_all is_hex_char (take 32 (sha ?x))"
    using hex unfolding list_all_iff by (meson in_set_takeD)
  then show ?thesis
    using len by (simp add: generate_hash_def hash_input_def or_empty_def)
qed

theorem generate_hash_hex_digest_and_normalisation_witness:
  "(\<forall>s. length (sample_digest s) = 64 \<and> list_all is_hex_char (sample_digest s))
   \<and> generate_hash sample_digest text_value text_value
        ''2024-01-15T00:00:00+00:00'' ''-12.5'' (Some ''Countdown'') None
       = ''3a6e776f64746e756f433a352e32312d''
   \<and> generate_hash sample_digest text_value text_value
        ''2024-01-15T00:00:00+00:00'' ''-12.5'' None None
       = ''3a3a352e32312d3a30303a30302b3030''
   \<and> generate_hash sample_digest text_value text_value
        ''2024-01-15T00:00:00+00:00'' ''-12.5'' (Some []) (Some [])
       = ''3a3a352e32312d3a30303a30302b3030''
   \<and> generate_hash sample_digest text_value text_value
        ''2024-01-15T00:00:00+00:00'' ''-12.5'' (Some ''Countdown'') (Some ''POS'')
       = ''534f503a6e776f64746e756f433a352e''"
proof -
  have h: "\<forall>s. length (sample_digest s) = 64 \<and> list_all is_hex_char (sample_digest s)"
    using sample_digest_shape by blast
  note g = generate_hash_hex_digest_and_normalisation
      [OF h, where isoformat = text_value and fmt = text_value
         and t = "''2024-01-15T00:00:00+00:00''" and a = "''-12.5''"]
  have e1: "take 32 (sample_digest (''2024-01-15T00:00:00+00:00:-12.5:Countdown:''))
              = ''3a6e776f64746e756f433a352e32312d''"
    by (simp add: sample_digest_def hex_byte_def hex_digit_def)
  have e2: "take 32 (sample_digest (''2024-01-15T00:00:00+00:00:-12.5::''))
              = ''3a3a352e32312d3a30303a30302b3030''"
    by (simp add: sample_digest_def hex_byte_def hex_digit_def)
  have e3: "take 32 (sample_digest (''2024-01-15T00:00:00+00:00:-12.5:Countdown:POS''))
              = ''534f503a6e776f64746e756f433a352e''"
    by (simp add: sample_digest_def hex_byte_def hex_digit_def)
  show ?thesis
    using h g [of "Some ''Countdown''" None] g [of None None]
      g [of "Some ''Countdown''" "Some ''POS''"] e1 e2 e3
    by (simp add: text_value_def)
qed



section \<open>Recording a batch\<close>






section \<open>Unlinking an account\<close>



end
